theory Spec2Isabelle
  imports Complex_Main "HOL-Library.Multiset" "HOL-Library.Log_Nat"
begin

section \<open>Helper routines of the metabolomics imputation project\<close>

text \<open>
  A shallow embedding of \<^verbatim>\<open>src/utils/helpers.py\<close>. Python exceptions are values of
  \<open>py_error\<close> on the left of a sum; a dictionary is an association list in insertion order
  (the order \<^verbatim>\<open>.items()\<close> iterates in); the file system and the log are an explicit
  \<open>world\<close> that effectful operations take and return.
\<close>

subsection \<open>Errors\<close>

datatype py_error =
    KeyError string
  | ImportError
  | FileExistsError
  | FileNotFoundError
  | NotADirectoryError
  | IsADirectoryError
  | PermissionError

text \<open>\<^verbatim>\<open>d[key]\<close> on a dictionary entry that may be absent.\<close>

definition getitem :: "string \<Rightarrow> 'a option \<Rightarrow> py_error + 'a" where
  "getitem key entry = (case entry of None \<Rightarrow> Inl (KeyError key) | Some v \<Rightarrow> Inr v)"

subsection \<open>Rendering integers, as \<^verbatim>\<open>str\<close> and f-strings do\<close>

definition digit_char :: "nat \<Rightarrow> char" where
  "digit_char d = ''0123456789'' ! d"

fun str_nat :: "nat \<Rightarrow> string" where
  "str_nat n = (if n < 10 then [digit_char n] else str_nat (n div 10) @ [digit_char (n mod 10)])"

declare str_nat.simps [simp del]

definition str_int :: "int \<Rightarrow> string" where
  "str_int i = (if i < 0 then CHR ''-'' # str_nat (nat (- i)) else str_nat (nat i))"

subsection \<open>The configuration\<close>

text \<open>
  The configuration is the nested mapping that \<^verbatim>\<open>yaml.safe_load\<close> returns. Every section
  and every key may be absent (\<open>None\<close>); a lookup of an absent key raises \<open>KeyError\<close>.
  Counts are Python integers.
\<close>

record dataset_section =
  ds_name :: "string option"
  ds_total_files :: "int option"
  ds_samples :: "(string \<times> int) list option"

record visualization_section =
  vis_colors :: "(string \<times> string) list option"

record project_section =
  prj_name :: "string option"

record config =
  cfg_paths :: "(string \<times> string) list option"
  cfg_dataset :: "dataset_section option"
  cfg_visualization :: "visualization_section option"
  cfg_project :: "project_section option"

text \<open>\<^verbatim>\<open>config['dataset']['samples']\<close>\<close>

definition config_samples :: "config \<Rightarrow> py_error + (string \<times> int) list" where
  "config_samples cfg =
     (case getitem ''dataset'' (cfg_dataset cfg) of
        Inl e \<Rightarrow> Inl e
      | Inr ds \<Rightarrow> getitem ''samples'' (ds_samples ds))"

text \<open>\<^verbatim>\<open>config['visualization']['colors']\<close>\<close>

definition config_colors :: "config \<Rightarrow> py_error + (string \<times> string) list" where
  "config_colors cfg =
     (case getitem ''visualization'' (cfg_visualization cfg) of
        Inl e \<Rightarrow> Inl e
      | Inr vis \<Rightarrow> getitem ''colors'' (vis_colors vis))"

subsection \<open>Tables\<close>

text \<open>
  A \<^verbatim>\<open>DataFrame\<close>: the column labels and the rows, each row one cell per column. A missing
  cell (\<^verbatim>\<open>NaN\<close>, \<^verbatim>\<open>None\<close>) is \<open>None\<close>.
\<close>

record 'a dataframe =
  columns :: "string list"
  rows :: "'a option list list"

definition len_df :: "'a dataframe \<Rightarrow> nat" where
  "len_df data = length (rows data)"

definition isnull :: "'a option \<Rightarrow> bool" where
  "isnull c = (case c of None \<Rightarrow> True | Some _ \<Rightarrow> False)"

definition column_cells :: "'a dataframe \<Rightarrow> nat \<Rightarrow> 'a option list" where
  "column_cells data j = map (\<lambda>r. r ! j) (rows data)"

text \<open>\<^verbatim>\<open>data.isnull().sum()\<close>: the number of missing cells of each column.\<close>

definition isnull_sum :: "'a dataframe \<Rightarrow> nat list" where
  "isnull_sum data =
     map (\<lambda>j. length (filter isnull (column_cells data j))) [0..<length (columns data)]"

text \<open>\<^verbatim>\<open>data.isnull().all()\<close>: for each column, whether all its cells are missing.\<close>

definition isnull_all :: "'a dataframe \<Rightarrow> bool list" where
  "isnull_all data =
     map (\<lambda>j. list_all isnull (column_cells data j)) [0..<length (columns data)]"

text \<open>\<^verbatim>\<open>data.isnull().all(axis=1)\<close>: for each row, whether all its cells are missing.\<close>

definition isnull_all_axis1 :: "'a dataframe \<Rightarrow> bool list" where
  "isnull_all_axis1 data = map (list_all isnull) (rows data)"

text \<open>\<^verbatim>\<open>labels[mask]\<close>: the labels at which a boolean mask is true.\<close>

definition select_mask :: "'b list \<Rightarrow> bool list \<Rightarrow> 'b list" where
  "select_mask labels flags = map fst (filter snd (zip labels flags))"

subsection \<open>The file system and the log\<close>

text \<open>
  A path is its list of components; an absolute path starts with the component \<open>''/''\<close>.
  The world holds the directories, the files (of a file, the encoding it was written in),
  the paths at which the operating system refuses to create an entry, whether a module
  that writes Excel files can be imported, and the records passed to \<^verbatim>\<open>logging\<close>.
\<close>

type_synonym path = "string list"

datatype encoding = CsvText | ExcelBook | PickleBlob | NpyBlob

record world =
  dirs :: "path set"
  files :: "path \<rightharpoonup> encoding"
  denied :: "path set"
  excel_engine :: bool
  log :: "string list"

definition startswith :: "string \<Rightarrow> string \<Rightarrow> bool" where
  "startswith s p = (take (length p) s = p)"

definition endswith :: "string \<Rightarrow> string \<Rightarrow> bool" where
  "endswith s suffix = (length suffix \<le> length s \<and> drop (length s - length suffix) s = suffix)"

fun split_on :: "char \<Rightarrow> string \<Rightarrow> string list" where
  "split_on sep [] = [[]]"
| "split_on sep (c # cs) =
     (if c = sep then [] # split_on sep cs
      else (case split_on sep cs of [] \<Rightarrow> [[c]] | x # xs \<Rightarrow> (c # x) # xs))"

text \<open>\<^verbatim>\<open>Path(s)\<close>: empty components and \<^verbatim>\<open>.\<close> are dropped.\<close>

definition Path :: "string \<Rightarrow> path" where
  "Path s =
     (if startswith s ''/'' then [''/''] else [])
       @ filter (\<lambda>c. c \<noteq> [] \<and> c \<noteq> ''.'') (split_on CHR ''/'' s)"

text \<open>\<^verbatim>\<open>p / s\<close>: an absolute right operand replaces the left one.\<close>

definition path_join :: "path \<Rightarrow> string \<Rightarrow> path" where
  "path_join p s = (if startswith s ''/'' then Path s else p @ Path s)"

text \<open>\<^verbatim>\<open>str(p)\<close>\<close>

fun str_path :: "path \<Rightarrow> string" where
  "str_path [] = ''.''"
| "str_path [c] = c"
| "str_path (c # d # cs) = (if c = ''/'' then c @ str_path (d # cs) else c @ ''/'' @ str_path (d # cs))"

text \<open>The current directory and the root always exist.\<close>

definition is_dir :: "world \<Rightarrow> path \<Rightarrow> bool" where
  "is_dir w p = (p = [] \<or> p = [''/''] \<or> p \<in> dirs w)"

definition is_file :: "world \<Rightarrow> path \<Rightarrow> bool" where
  "is_file w p = (files w p \<noteq> None)"

text \<open>The path itself and the directories above it, outermost first.\<close>

definition parents_and_self :: "path \<Rightarrow> path list" where
  "parents_and_self p = map (\<lambda>n. take n p) [1..<Suc (length p)]"

text \<open>
  \<^verbatim>\<open>p.mkdir(parents=True, exist_ok=True)\<close>, as \<^verbatim>\<open>mkdir -p\<close>: an existing directory is
  left alone; a file at the path or above it is an error; missing directories are created
  from the outermost on.
\<close>

definition mkdir :: "world \<Rightarrow> path \<Rightarrow> py_error + world" where
  "mkdir w p =
     (if is_dir w p then Inr w
      else if is_file w p then Inl FileExistsError
      else if \<exists>q \<in> set (parents_and_self p). is_file w q then Inl NotADirectoryError
      else if \<exists>q \<in> set (parents_and_self p). \<not> is_dir w q \<and> q \<in> denied w
           then Inl PermissionError
      else Inr (w\<lparr>dirs := dirs w \<union> set (parents_and_self p)\<rparr>))"

text \<open>Opening a file for writing and writing it in one encoding.\<close>

definition write_file :: "world \<Rightarrow> path \<Rightarrow> encoding \<Rightarrow> py_error + world" where
  "write_file w p enc =
     (if is_dir w p then Inl IsADirectoryError
      else if is_file w (butlast p) then Inl NotADirectoryError
      else if \<not> is_dir w (butlast p) then Inl FileNotFoundError
      else if p \<in> denied w then Inl PermissionError
      else Inr (w\<lparr>files := (files w)(p \<mapsto> enc)\<rparr>))"

subsection \<open>\<^verbatim>\<open>validate_data\<close>\<close>

text \<open>
  The function works on a local list \<^verbatim>\<open>errors\<close> that it appends to. Its state is that
  list together with everything it could touch: its two arguments and the world.
\<close>

record 'a vstate =
  v_data :: "'a dataframe"
  v_config :: config
  v_world :: world
  v_errors :: "string list"

definition row_count_message :: "int \<Rightarrow> nat \<Rightarrow> string" where
  "row_count_message expected_samples n =
     ''Expected '' @ str_int expected_samples @ '' samples, got '' @ str_nat n"

definition empty_features_message :: "nat \<Rightarrow> string" where
  "empty_features_message n = ''Found '' @ str_nat n @ '' completely empty features''"

definition empty_samples_message :: "nat \<Rightarrow> string" where
  "empty_samples_message n = ''Found '' @ str_nat n @ '' completely empty samples''"

text \<open>Check number of samples.\<close>

definition check_sample_count :: "'a vstate \<Rightarrow> py_error + 'a vstate" where
  "check_sample_count s =
     (case config_samples (v_config s) of
        Inl e \<Rightarrow> Inl e
      | Inr samples \<Rightarrow>
          (let expected_samples = sum_list (map snd samples) in
           if int (len_df (v_data s)) \<noteq> expected_samples
           then Inr (s\<lparr>v_errors := v_errors s
                        @ [row_count_message expected_samples (len_df (v_data s))]\<rparr>)
           else Inr s))"

text \<open>Check for completely empty features.\<close>

definition check_empty_features :: "'a vstate \<Rightarrow> 'a vstate" where
  "check_empty_features s =
     (let empty_features = select_mask (columns (v_data s)) (isnull_all (v_data s)) in
      if length empty_features > 0
      then s\<lparr>v_errors := v_errors s @ [empty_features_message (length empty_features)]\<rparr>
      else s)"

text \<open>Check for completely empty samples.\<close>

definition check_empty_samples :: "'a vstate \<Rightarrow> 'a vstate" where
  "check_empty_samples s =
     (let empty_samples = select_mask [0..<len_df (v_data s)] (isnull_all_axis1 (v_data s)) in
      if length empty_samples > 0
      then s\<lparr>v_errors := v_errors s @ [empty_samples_message (length empty_samples)]\<rparr>
      else s)"

definition validate_data_body :: "'a vstate \<Rightarrow> py_error + 'a vstate" where
  "validate_data_body s =
     (case check_sample_count s of
        Inl e \<Rightarrow> Inl e
      | Inr s1 \<Rightarrow> Inr (check_empty_samples (check_empty_features s1)))"

text \<open>
  A call: the body runs from an empty \<^verbatim>\<open>errors\<close> list; the caller gets
  \<^verbatim>\<open>(is_valid, errors)\<close> and the state the call leaves behind.
\<close>

definition validate_data_call ::
  "'a dataframe \<Rightarrow> config \<Rightarrow> world
     \<Rightarrow> py_error + ((bool \<times> string list) \<times> 'a vstate)" where
  "validate_data_call data cfg w =
     (case validate_data_body \<lparr>v_data = data, v_config = cfg, v_world = w, v_errors = []\<rparr> of
        Inl e \<Rightarrow> Inl e
      | Inr s \<Rightarrow> Inr ((length (v_errors s) = 0, v_errors s), s))"

text \<open>What the caller gets back.\<close>

definition validate_data :: "'a dataframe \<Rightarrow> config \<Rightarrow> py_error + (bool \<times> string list)" where
  "validate_data data cfg =
     (case validate_data_call data cfg
             \<lparr>dirs = {}, files = Map.empty, denied = {}, excel_engine = True, log = []\<rparr> of
        Inl e \<Rightarrow> Inl e
      | Inr (result, s) \<Rightarrow> Inr result)"

definition is_row_count_message :: "string \<Rightarrow> bool" where
  "is_row_count_message m = startswith m ''Expected ''"

text \<open>The number of columns, and of rows, all of whose cells are missing.\<close>

definition empty_feature_count :: "'a dataframe \<Rightarrow> nat" where
  "empty_feature_count data =
     length (filter (\<lambda>j. \<forall>r \<in> set (rows data). isnull (r ! j)) [0..<length (columns data)])"

definition empty_sample_count :: "'a dataframe \<Rightarrow> nat" where
  "empty_sample_count data = length (filter (\<lambda>r. \<forall>c \<in> set r. isnull c) (rows data))"

text \<open>The messages in the order of the three checks.\<close>

definition collected_errors :: "'a dataframe \<Rightarrow> (string \<times> int) list \<Rightarrow> string list" where
  "collected_errors data samples =
       (if int (len_df data) \<noteq> sum_list (map snd samples)
        then [row_count_message (sum_list (map snd samples)) (len_df data)] else [])
       @ (if 0 < empty_feature_count data
          then [empty_features_message (empty_feature_count data)] else [])
       @ (if 0 < empty_sample_count data
          then [empty_samples_message (empty_sample_count data)] else [])"

subsection \<open>\<^verbatim>\<open>float64\<close> arithmetic\<close>

text \<open>
  A \<^verbatim>\<open>float64\<close> value: a finite one is the rational it denotes, with \<open>Finite 0\<close> for
  \<^verbatim>\<open>0.0\<close> and \<open>NegZero\<close> for \<^verbatim>\<open>-0.0\<close>. Every operation computes the exact result and
  rounds it to the nearest value with a significand of 53 bits, ties to the even one.
\<close>

datatype float64 = Finite rat | NegZero | PosInf | NegInf | NaN

definition round_half_even :: "rat \<Rightarrow> int" where
  "round_half_even q =
     (let f = \<lfloor>q\<rfloor>; r = q - of_int f in
      if r < 1 / 2 then f
      else if 1 / 2 < r then f + 1
      else if even f then f else f + 1)"

text \<open>The exponent \<open>e\<close> with \<open>2 ^ e \<le> a < 2 ^ (e + 1)\<close>, for \<open>a > 0\<close>.\<close>

definition floor_log2 :: "rat \<Rightarrow> int" where
  "floor_log2 a = (if 1 \<le> a then bitlen \<lfloor>a\<rfloor> - 1 else - bitlen (\<lceil>1 / a\<rceil> - 1))"

text \<open>
  The nearest multiple of the spacing at \<open>a \<ge> 0\<close>, which is \<open>2 ^ (e - 52)\<close> for a normal
  number and \<open>2 ^ (- 1074)\<close> below; ties go to the even multiple.
\<close>

definition nearest_float64 :: "rat \<Rightarrow> rat" where
  "nearest_float64 a =
     (if a = 0 then 0
      else (let t = max (floor_log2 a - 52) (- 1074)
            in of_int (round_half_even (a / 2 powi t)) * 2 powi t))"

text \<open>Rounding a magnitude \<open>a \<ge> 0\<close> with its sign: overflow gives an infinity.\<close>

definition round_signed :: "bool \<Rightarrow> rat \<Rightarrow> float64" where
  "round_signed negative a =
     (let v = nearest_float64 a in
      if 2 ^ 1024 \<le> v then (if negative then NegInf else PosInf)
      else if v = 0 then (if negative then NegZero else Finite 0)
      else Finite (if negative then - v else v))"

definition is_negative :: "float64 \<Rightarrow> bool" where
  "is_negative x =
     (case x of Finite q \<Rightarrow> q < 0 | NegZero \<Rightarrow> True | NegInf \<Rightarrow> True | _ \<Rightarrow> False)"

text \<open>The magnitude of a finite value; \<open>None\<close> for an infinity.\<close>

definition magnitude :: "float64 \<Rightarrow> rat option" where
  "magnitude x =
     (case x of Finite q \<Rightarrow> Some \<bar>q\<bar> | NegZero \<Rightarrow> Some 0 | _ \<Rightarrow> None)"

text \<open>The conversion of an integer.\<close>

definition float_of_int :: "int \<Rightarrow> float64" where
  "float_of_int i = round_signed (i < 0) (of_int \<bar>i\<bar>)"

text \<open>Division as numpy does it: a zero divisor gives an infinity or \<^verbatim>\<open>NaN\<close>, no error.\<close>

definition float_div :: "float64 \<Rightarrow> float64 \<Rightarrow> float64" where
  "float_div x y =
     (if x = NaN \<or> y = NaN then NaN
      else (let negative = (is_negative x \<noteq> is_negative y) in
        case (magnitude x, magnitude y) of
          (None, None) \<Rightarrow> NaN
        | (None, Some b) \<Rightarrow> (if negative then NegInf else PosInf)
        | (Some a, None) \<Rightarrow> (if negative then NegZero else Finite 0)
        | (Some a, Some b) \<Rightarrow>
            (if b = 0 then (if a = 0 then NaN else if negative then NegInf else PosInf)
             else round_signed negative (a / b))))"

definition float_times :: "float64 \<Rightarrow> float64 \<Rightarrow> float64" where
  "float_times x y =
     (if x = NaN \<or> y = NaN then NaN
      else (let negative = (is_negative x \<noteq> is_negative y) in
        case (magnitude x, magnitude y) of
          (None, None) \<Rightarrow> (if negative then NegInf else PosInf)
        | (None, Some b) \<Rightarrow> (if b = 0 then NaN else if negative then NegInf else PosInf)
        | (Some a, None) \<Rightarrow> (if a = 0 then NaN else if negative then NegInf else PosInf)
        | (Some a, Some b) \<Rightarrow> round_signed negative (a * b)))"

subsection \<open>\<^verbatim>\<open>calculate_missing_percentage\<close>\<close>

text \<open>
  \<^verbatim>\<open>counts / n\<close> on a series of integer counts: both operands are converted to
  \<^verbatim>\<open>float64\<close> and divided.
\<close>

definition truediv :: "nat \<Rightarrow> nat \<Rightarrow> float64" where
  "truediv n d = float_div (float_of_int (int n)) (float_of_int (int d))"

record missing_stat =
  feature :: string
  n_missing :: nat
  pct_missing :: float64

text \<open>The frame built from the three columns, before sorting.\<close>

definition missing_stats :: "'a dataframe \<Rightarrow> missing_stat list" where
  "missing_stats data =
     map (\<lambda>(f, n, p). \<lparr>feature = f, n_missing = n, pct_missing = p\<rparr>)
       (zip (columns data)
         (zip (isnull_sum data)
              (map (\<lambda>n. float_times (truediv n (len_df data)) (float_of_int 100))
                 (isnull_sum data))))"

text \<open>
  \<^verbatim>\<open>sort_values('pct_missing', ascending=False)\<close> is the library's; the function takes it
  as a parameter.
\<close>

definition calculate_missing_percentage ::
  "(missing_stat list \<Rightarrow> missing_stat list) \<Rightarrow> 'a dataframe \<Rightarrow> missing_stat list" where
  "calculate_missing_percentage sort_values data = sort_values (missing_stats data)"

text \<open>
  What pandas documents of that call with the default \<^verbatim>\<open>kind='quicksort'\<close> and
  \<^verbatim>\<open>na_position='last'\<close>: the rows are permuted, the keys descend, \<^verbatim>\<open>NaN\<close> keys come
  last. \<open>float_before x y\<close>: the key \<open>x\<close> has to come before the key \<open>y\<close>.
\<close>

definition float_rank :: "float64 \<Rightarrow> (int \<times> rat) option" where
  "float_rank x =
     (case x of
        NaN \<Rightarrow> None
      | NegInf \<Rightarrow> Some (- 1, 0)
      | Finite q \<Rightarrow> Some (0, q)
      | NegZero \<Rightarrow> Some (0, 0)
      | PosInf \<Rightarrow> Some (1, 0))"

definition float_less :: "float64 \<Rightarrow> float64 \<Rightarrow> bool" where
  "float_less x y =
     (case (float_rank x, float_rank y) of
        (Some (c, q), Some (c', q')) \<Rightarrow> c < c' \<or> (c = c' \<and> q < q')
      | _ \<Rightarrow> False)"

definition float_before :: "float64 \<Rightarrow> float64 \<Rightarrow> bool" where
  "float_before x y = (x \<noteq> NaN \<and> (y = NaN \<or> float_less y x))"

definition descending_nan_last :: "float64 list \<Rightarrow> bool" where
  "descending_nan_last ks = sorted_wrt (\<lambda>x y. \<not> float_before y x) ks"

definition sort_values_contract :: "(missing_stat list \<Rightarrow> missing_stat list) \<Rightarrow> bool" where
  "sort_values_contract sort_values =
     (\<forall>frame. mset (sort_values frame) = mset frame
        \<and> descending_nan_last (map pct_missing (sort_values frame)))"



text \<open>One sort that meets the contract and is stable: insertion from the right.\<close>

fun insert_stat :: "missing_stat \<Rightarrow> missing_stat list \<Rightarrow> missing_stat list" where
  "insert_stat x [] = [x]"
| "insert_stat x (y # ys) =
     (if float_before (pct_missing y) (pct_missing x) then y # insert_stat x ys else x # y # ys)"

definition sort_values_insertion :: "missing_stat list \<Rightarrow> missing_stat list" where
  "sort_values_insertion frame = foldr insert_stat frame []"

text \<open>The number of rows whose cell in column \<open>j\<close> is missing.\<close>

definition column_n_missing :: "'a dataframe \<Rightarrow> nat \<Rightarrow> nat" where
  "column_n_missing data j = length (filter (\<lambda>r. isnull (r ! j)) (rows data))"


text \<open>The row of column \<open>j\<close> as the three columns of the frame give it.\<close>

definition stat_of_column :: "'a dataframe \<Rightarrow> nat \<Rightarrow> missing_stat" where
  "stat_of_column data j =
     \<lparr>feature = columns data ! j, n_missing = column_n_missing data j,
      pct_missing = float_times (truediv (column_n_missing data j) (len_df data))
                      (float_of_int 100)\<rparr>"

subsection \<open>\<^verbatim>\<open>get_sample_info\<close>\<close>

text \<open>One row of the sample table. (\<open>sample_group\<close> is the column \<^verbatim>\<open>'group'\<close>.)\<close>

record sample_row =
  sample_id :: string
  sample_group :: string
  color :: string

text \<open>\<^verbatim>\<open>d.get(key, default)\<close>\<close>

definition dict_get :: "('k \<times> 'v) list \<Rightarrow> 'k \<Rightarrow> 'v \<Rightarrow> 'v" where
  "dict_get d key fallback = (case map_of d key of None \<Rightarrow> fallback | Some v \<Rightarrow> v)"

text \<open>\<^verbatim>\<open>range(count)\<close>: empty when \<open>count \<le> 0\<close>.\<close>

definition py_range :: "int \<Rightarrow> int list" where
  "py_range cnt = map int [0..<nat cnt]"

text \<open>
  The inner loop. The lookup \<^verbatim>\<open>config['visualization']['colors']\<close> is part of the loop
  body: it is made once for every row, and not at all when there is no row.
\<close>

fun sample_rows_loop ::
  "config \<Rightarrow> string \<Rightarrow> int list \<Rightarrow> sample_row list \<Rightarrow> py_error + sample_row list" where
  "sample_rows_loop cfg g [] sample_info = Inr sample_info"
| "sample_rows_loop cfg g (i # rest) sample_info =
     (case config_colors cfg of
        Inl e \<Rightarrow> Inl e
      | Inr colors \<Rightarrow>
          sample_rows_loop cfg g rest
            (sample_info @ [\<lparr>sample_id = g @ ''_'' @ str_int (i + 1), sample_group = g,
                              color = dict_get colors g ''#999999''\<rparr>]))"

text \<open>The outer loop, over \<^verbatim>\<open>samples.items()\<close>.\<close>

fun sample_groups_loop ::
  "config \<Rightarrow> (string \<times> int) list \<Rightarrow> sample_row list \<Rightarrow> py_error + sample_row list" where
  "sample_groups_loop cfg [] sample_info = Inr sample_info"
| "sample_groups_loop cfg ((g, cnt) # rest) sample_info =
     (case sample_rows_loop cfg g (py_range cnt) sample_info of
        Inl e \<Rightarrow> Inl e
      | Inr sample_info' \<Rightarrow> sample_groups_loop cfg rest sample_info')"

definition get_sample_info :: "config \<Rightarrow> py_error + sample_row list" where
  "get_sample_info cfg =
     (case config_samples cfg of
        Inl e \<Rightarrow> Inl e
      | Inr samples \<Rightarrow> sample_groups_loop cfg samples [])"

text \<open>The rows of one group: indices 1 to \<open>count\<close>, the group's colour or the default.\<close>

definition group_rows :: "(string \<times> string) list \<Rightarrow> string \<Rightarrow> int \<Rightarrow> sample_row list" where
  "group_rows colors g cnt =
     map (\<lambda>i. \<lparr>sample_id = g @ ''_'' @ str_nat i, sample_group = g,
               color = (case map_of colors g of Some c \<Rightarrow> c | None \<Rightarrow> ''#999999'')\<rparr>)
       [1..<Suc (nat cnt)]"

subsection \<open>\<^verbatim>\<open>create_directories\<close>\<close>

text \<open>The loop over \<^verbatim>\<open>config['paths'].items()\<close>.\<close>

fun create_directories_loop :: "(string \<times> string) list \<Rightarrow> world \<Rightarrow> py_error + world" where
  "create_directories_loop [] w = Inr w"
| "create_directories_loop ((path_name, path_value) # rest) w =
     (case mkdir w (Path path_value) of
        Inl e \<Rightarrow> Inl e
      | Inr w' \<Rightarrow> create_directories_loop rest w')"

definition create_directories :: "config \<Rightarrow> world \<Rightarrow> py_error + world" where
  "create_directories cfg w =
     (case getitem ''paths'' (cfg_paths cfg) of
        Inl e \<Rightarrow> Inl e
      | Inr paths \<Rightarrow> create_directories_loop paths w)"

subsection \<open>\<^verbatim>\<open>save_results\<close>\<close>

text \<open>
  What \<^verbatim>\<open>data\<close> can be at run time: a \<^verbatim>\<open>DataFrame\<close>, an \<^verbatim>\<open>ndarray\<close>, or an object
  of another type, which neither \<^verbatim>\<open>isinstance\<close> test accepts.
\<close>

datatype 'a artifact = DataFrame "'a dataframe" | NDArray "'a list" | OtherObject

definition to_csv :: "world \<Rightarrow> path \<Rightarrow> py_error + world" where
  "to_csv w p = write_file w p CsvText"

text \<open>\<^verbatim>\<open>to_excel\<close> imports the module that writes the file first.\<close>

definition to_excel :: "world \<Rightarrow> path \<Rightarrow> py_error + world" where
  "to_excel w p = (if excel_engine w then write_file w p ExcelBook else Inl ImportError)"

definition to_pickle :: "world \<Rightarrow> path \<Rightarrow> py_error + world" where
  "to_pickle w p = write_file w p PickleBlob"

text \<open>\<^verbatim>\<open>np.save\<close> appends \<^verbatim>\<open>.npy\<close> to a file name that does not end with it.\<close>

definition npy_path :: "path \<Rightarrow> path" where
  "npy_path p =
     (if endswith (str_path p) ''.npy'' then p
      else if p = [] then [''..npy'']
      else if p = [''/''] then [''/'', ''.npy'']
      else butlast p @ [last p @ ''.npy''])"

definition np_save :: "world \<Rightarrow> path \<Rightarrow> py_error + world" where
  "np_save w p = write_file w (npy_path p) NpyBlob"

text \<open>The \<^verbatim>\<open>if isinstance \<dots> elif isinstance \<dots>\<close> statement; it has no \<^verbatim>\<open>else\<close>.\<close>

definition persist :: "'a artifact \<Rightarrow> string \<Rightarrow> path \<Rightarrow> world \<Rightarrow> py_error + world" where
  "persist data filename output_path w =
     (case data of
        DataFrame df \<Rightarrow>
          (if endswith filename ''.csv'' then to_csv w output_path
           else if endswith filename ''.xlsx'' then to_excel w output_path
           else to_pickle w output_path)
      | NDArray a \<Rightarrow> np_save w output_path
      | OtherObject \<Rightarrow> Inr w)"

definition save_results ::
  "'a artifact \<Rightarrow> string \<Rightarrow> config \<Rightarrow> string \<Rightarrow> world \<Rightarrow> py_error + world" where
  "save_results data filename cfg subdirectory w =
     (case getitem ''paths'' (cfg_paths cfg) of
        Inl e \<Rightarrow> Inl e
      | Inr paths \<Rightarrow>
     (case getitem subdirectory (map_of paths subdirectory) of
        Inl e \<Rightarrow> Inl e
      | Inr path_value \<Rightarrow>
     (let output_dir = Path path_value in
      case mkdir w output_dir of
        Inl e \<Rightarrow> Inl e
      | Inr w1 \<Rightarrow>
     (let output_path = path_join output_dir filename in
      case persist data filename output_path w1 of
        Inl e \<Rightarrow> Inl e
      | Inr w2 \<Rightarrow>
          Inr (w2\<lparr>log := log w2 @ [''Results saved to '' @ str_path output_path]\<rparr>)))))"

text \<open>The directory and the path that \<^verbatim>\<open>save_results\<close> computes from its arguments.\<close>

definition output_path_of :: "config \<Rightarrow> string \<Rightarrow> string \<Rightarrow> path option" where
  "output_path_of cfg subdirectory filename =
     (case cfg_paths cfg of
        None \<Rightarrow> None
      | Some paths \<Rightarrow>
          (case map_of paths subdirectory of
             None \<Rightarrow> None
           | Some path_value \<Rightarrow> Some (path_join (Path path_value) filename)))"

definition output_dir_of :: "config \<Rightarrow> string \<Rightarrow> path option" where
  "output_dir_of cfg subdirectory =
     (case cfg_paths cfg of
        None \<Rightarrow> None
      | Some paths \<Rightarrow> map_option Path (map_of paths subdirectory))"

text \<open>Every directory above a directory is a directory.\<close>

definition dirs_closed :: "world \<Rightarrow> bool" where
  "dirs_closed w = (\<forall>p \<in> dirs w. \<forall>q \<in> set (parents_and_self p). is_dir w q)"

subsection \<open>\<^verbatim>\<open>generate_report_summary\<close>\<close>
















section \<open>Properties\<close>

subsection \<open>\<^verbatim>\<open>validate_data\<close>\<close>

lemma length_select_mask:
  "length labels = length flags \<Longrightarrow> length (select_mask labels flags) = length (filter id flags)"
  unfolding select_mask_def
  by (induction labels flags rule: list_induct2) auto

lemma not_row_count_features: "\<not> is_row_count_message (empty_features_message n)"
  by (simp add: is_row_count_message_def startswith_def empty_features_message_def)

lemma not_row_count_samples: "\<not> is_row_count_message (empty_samples_message n)"
  by (simp add: is_row_count_message_def startswith_def empty_samples_message_def)

lemma is_row_count_row: "is_row_count_message (row_count_message e n)"
  by (simp add: is_row_count_message_def startswith_def row_count_message_def)

lemma n_empty_features:
  "length (select_mask (columns data) (isnull_all data)) = empty_feature_count data"
  by (simp add: length_select_mask isnull_all_def empty_feature_count_def filter_map o_def
      column_cells_def list_all_iff)

lemma n_empty_samples:
  "length (select_mask [0..<len_df data] (isnull_all_axis1 data)) = empty_sample_count data"
  by (simp add: length_select_mask isnull_all_axis1_def empty_sample_count_def filter_map o_def
      len_df_def list_all_iff)

lemma check_empty_features_eq:
  "check_empty_features s =
     s\<lparr>v_errors := v_errors s
        @ (if 0 < empty_feature_count (v_data s)
           then [empty_features_message (empty_feature_count (v_data s))] else [])\<rparr>"
  unfolding check_empty_features_def Let_def n_empty_features by simp

lemma check_empty_samples_eq:
  "check_empty_samples s =
     s\<lparr>v_errors := v_errors s
        @ (if 0 < empty_sample_count (v_data s)
           then [empty_samples_message (empty_sample_count (v_data s))] else [])\<rparr>"
  unfolding check_empty_samples_def Let_def n_empty_samples by simp

lemma check_sample_count_eq:
  "config_samples (v_config s) = Inr samples \<Longrightarrow>
   check_sample_count s =
     Inr (s\<lparr>v_errors := v_errors s
        @ (if int (len_df (v_data s)) \<noteq> sum_list (map snd samples)
           then [row_count_message (sum_list (map snd samples)) (len_df (v_data s))]
           else [])\<rparr>)"
  unfolding check_sample_count_def Let_def by simp

lemma validate_data_body_eq:
  assumes "config_samples (v_config s) = Inr samples"
  shows "validate_data_body s =
     Inr (s\<lparr>v_errors := v_errors s @ collected_errors (v_data s) samples\<rparr>)"
  unfolding validate_data_body_def check_sample_count_eq [OF assms]
    check_empty_features_eq check_empty_samples_eq collected_errors_def
  by simp

lemma validate_data_call_eq:
  assumes "config_samples cfg = Inr samples"
  shows "validate_data_call data cfg w =
     Inr ((collected_errors data samples = [], collected_errors data samples),
          \<lparr>v_data = data, v_config = cfg, v_world = w,
           v_errors = collected_errors data samples\<rparr>)"
  unfolding validate_data_call_def
  using assms by (simp add: validate_data_body_eq)

lemma validate_data_call_KeyError:
  "config_samples cfg = Inl e \<Longrightarrow> validate_data_call data cfg w = Inl e"
  by (simp add: validate_data_call_def validate_data_body_def check_sample_count_def)

lemma validate_data_eq:
  assumes "config_samples cfg = Inr samples"
  shows "validate_data data cfg =
     Inr (collected_errors data samples = [], collected_errors data samples)"
  unfolding validate_data_def using assms by (simp add: validate_data_call_eq)

lemma row_count_messages_collected:
  "filter is_row_count_message (collected_errors data samples) =
     (if int (len_df data) \<noteq> sum_list (map snd samples)
      then [row_count_message (sum_list (map snd samples)) (len_df data)] else [])"
  by (simp add: collected_errors_def is_row_count_row not_row_count_features
      not_row_count_samples)

lemma no_empty_features:
  "(\<forall>j < length (columns data). \<exists>r \<in> set (rows data). \<not> isnull (r ! j))
     \<Longrightarrow> empty_feature_count data = 0"
  by (auto simp: empty_feature_count_def filter_empty_conv)

lemma no_empty_samples:
  "(\<forall>r \<in> set (rows data). \<exists>c \<in> set r. \<not> isnull c) \<Longrightarrow> empty_sample_count data = 0"
  by (auto simp: empty_sample_count_def filter_empty_conv)

text \<open>
  C2. When \<^verbatim>\<open>config['dataset']['samples']\<close> exists, \<^verbatim>\<open>validate_data\<close> returns
  \<open>(is_valid, errors)\<close> where \<open>is_valid\<close> holds if and only if \<open>errors\<close> is empty; the errors
  are, in this order, the row-count message (if the row count differs from the sum of the
  group counts), the empty-feature message (if some column is entirely missing) and the
  empty-sample message (if some row is entirely missing). A differing row count gives
  \<open>is_valid = False\<close> and exactly one row-count message; a matching row count with no
  entirely missing column or row gives \<open>(True, [])\<close>.
\<close>

theorem validate_data_contract:
  assumes "config_samples cfg = Inr samples"
  shows "\<exists>is_valid errors.
      validate_data data cfg = Inr (is_valid, errors)
    \<and> (is_valid \<longleftrightarrow> errors = [])
    \<and> errors =
        (if int (len_df data) \<noteq> sum_list (map snd samples)
         then [row_count_message (sum_list (map snd samples)) (len_df data)] else [])
        @ (if 0 < empty_feature_count data
           then [empty_features_message (empty_feature_count data)] else [])
        @ (if 0 < empty_sample_count data
           then [empty_samples_message (empty_sample_count data)] else [])
    \<and> (int (len_df data) \<noteq> sum_list (map snd samples) \<longrightarrow>
          \<not> is_valid \<and> length (filter is_row_count_message errors) = 1)
    \<and> (int (len_df data) = sum_list (map snd samples)
         \<and> (\<forall>j < length (columns data). \<exists>r \<in> set (rows data). \<not> isnull (r ! j))
         \<and> (\<forall>r \<in> set (rows data). \<exists>c \<in> set r. \<not> isnull c) \<longrightarrow>
          is_valid \<and> errors = [])"
proof -
  let ?errors = "collected_errors data samples"
  have result: "validate_data data cfg = Inr (?errors = [], ?errors)"
    by (rule validate_data_eq [OF assms])
  have order: "?errors =
        (if int (len_df data) \<noteq> sum_list (map snd samples)
         then [row_count_message (sum_list (map snd samples)) (len_df data)] else [])
        @ (if 0 < empty_feature_count data
           then [empty_features_message (empty_feature_count data)] else [])
        @ (if 0 < empty_sample_count data
           then [empty_samples_message (empty_sample_count data)] else [])"
    by (simp add: collected_errors_def)
  have mismatch: "int (len_df data) \<noteq> sum_list (map snd samples) \<longrightarrow>
          \<not> (?errors = []) \<and> length (filter is_row_count_message ?errors) = 1"
    unfolding row_count_messages_collected by (simp add: collected_errors_def)
  have clean: "int (len_df data) = sum_list (map snd samples)
         \<and> (\<forall>j < length (columns data). \<exists>r \<in> set (rows data). \<not> isnull (r ! j))
         \<and> (\<forall>r \<in> set (rows data). \<exists>c \<in> set r. \<not> isnull c) \<longrightarrow>
          (?errors = []) \<and> ?errors = []"
    by (simp add: collected_errors_def no_empty_features no_empty_samples)
  from result order mismatch clean show ?thesis by blast
qed

theorem validate_data_contract_witness:
  "config_samples
     \<lparr>cfg_paths = None,
      cfg_dataset = Some \<lparr>ds_name = None, ds_total_files = None,
                          ds_samples = Some [(''control'', 2), (''treated'', 1)]\<rparr>,
      cfg_visualization = None, cfg_project = None\<rparr>
     = Inr [(''control'', 2), (''treated'', 1)]
   \<and> validate_data
       \<lparr>columns = [''m1'', ''m2''], rows = [[Some (1::int), None], [None, None]]\<rparr>
       \<lparr>cfg_paths = None,
        cfg_dataset = Some \<lparr>ds_name = None, ds_total_files = None,
                            ds_samples = Some [(''control'', 2), (''treated'', 1)]\<rparr>,
        cfg_visualization = None, cfg_project = None\<rparr>
     = Inr (False, [''Expected 3 samples, got 2'', ''Found 1 completely empty features'',
                    ''Found 1 completely empty samples''])
   \<and> validate_data
       \<lparr>columns = [''m1'', ''m2''],
        rows = [[Some (1::int), None], [None, Some 2], [Some 3, Some 4]]\<rparr>
       \<lparr>cfg_paths = None,
        cfg_dataset = Some \<lparr>ds_name = None, ds_total_files = None,
                            ds_samples = Some [(''control'', 2), (''treated'', 1)]\<rparr>,
        cfg_visualization = None, cfg_project = None\<rparr>
     = Inr (True, [])"
  using validate_data_contract
    [of "\<lparr>cfg_paths = None,
         cfg_dataset = Some \<lparr>ds_name = None, ds_total_files = None,
                             ds_samples = Some [(''control'', 2), (''treated'', 1)]\<rparr>,
         cfg_visualization = None, cfg_project = None\<rparr>"
        "[(''control'', 2), (''treated'', 1)]"
        "\<lparr>columns = [''m1'', ''m2''], rows = [[Some (1::int), None], [None, None]]\<rparr>"]
    validate_data_contract
    [of "\<lparr>cfg_paths = None,
         cfg_dataset = Some \<lparr>ds_name = None, ds_total_files = None,
                             ds_samples = Some [(''control'', 2), (''treated'', 1)]\<rparr>,
         cfg_visualization = None, cfg_project = None\<rparr>"
        "[(''control'', 2), (''treated'', 1)]"
        "\<lparr>columns = [''m1'', ''m2''],
          rows = [[Some (1::int), None], [None, Some 2], [Some 3, Some 4]]\<rparr>"]
  by (auto simp: config_samples_def getitem_def len_df_def empty_feature_count_def
      empty_sample_count_def isnull_def row_count_message_def empty_features_message_def
      empty_samples_message_def str_int_def str_nat.simps digit_char_def upt_rec)

text \<open>
  C8. The result of \<^verbatim>\<open>validate_data\<close> is a function of the dataset and the configuration
  alone: two calls on equal arguments return equal results, whatever the file system and
  the log are at each call. A call that returns leaves the dataset, the configuration and
  the world (file system and log) as they were.
\<close>

theorem validate_data_pure:
  "(data = data' \<and> cfg = cfg' \<longrightarrow>
      map_sum id fst (validate_data_call data cfg w)
        = map_sum id fst (validate_data_call data' cfg' w'))
   \<and> (\<forall>result s. validate_data_call data cfg w = Inr (result, s) \<longrightarrow>
         v_data s = data \<and> v_config s = cfg \<and> v_world s = w)"
proof (cases "config_samples cfg")
  case (Inl e)
  then show ?thesis by (auto simp: validate_data_call_KeyError)
next
  case (Inr samples)
  then show ?thesis by (auto simp: validate_data_call_eq)
qed

theorem validate_data_pure_witness:
  "map_sum id fst
     (validate_data_call
        \<lparr>columns = [''m1'', ''m2''], rows = [[Some (1::int), None], [None, None]]\<rparr>
        \<lparr>cfg_paths = None,
         cfg_dataset = Some \<lparr>ds_name = None, ds_total_files = None,
                             ds_samples = Some [(''control'', 2), (''treated'', 1)]\<rparr>,
         cfg_visualization = None, cfg_project = None\<rparr>
        \<lparr>dirs = {[''results'']}, files = Map.empty, denied = {}, excel_engine = True, log = [''started'']\<rparr>)
   = map_sum id fst
     (validate_data_call
        \<lparr>columns = [''m1'', ''m2''], rows = [[Some (1::int), None], [None, None]]\<rparr>
        \<lparr>cfg_paths = None,
         cfg_dataset = Some \<lparr>ds_name = None, ds_total_files = None,
                             ds_samples = Some [(''control'', 2), (''treated'', 1)]\<rparr>,
         cfg_visualization = None, cfg_project = None\<rparr>
        \<lparr>dirs = {}, files = Map.empty, denied = {}, excel_engine = True, log = []\<rparr>)
   \<and> (\<exists>result s.
        validate_data_call
          \<lparr>columns = [''m1'', ''m2''], rows = [[Some (1::int), None], [None, None]]\<rparr>
          \<lparr>cfg_paths = None,
           cfg_dataset = Some \<lparr>ds_name = None, ds_total_files = None,
                               ds_samples = Some [(''control'', 2), (''treated'', 1)]\<rparr>,
           cfg_visualization = None, cfg_project = None\<rparr>
          \<lparr>dirs = {[''results'']}, files = Map.empty, denied = {}, excel_engine = True, log = [''started'']\<rparr>
          = Inr (result, s)
        \<and> v_data s
          = \<lparr>columns = [''m1'', ''m2''], rows = [[Some (1::int), None], [None, None]]\<rparr>
        \<and> v_world s
          = \<lparr>dirs = {[''results'']}, files = Map.empty, denied = {}, excel_engine = True, log = [''started'']\<rparr>)"
proof -
  let ?data = "\<lparr>columns = [''m1'', ''m2''], rows = [[Some (1::int), None], [None, None]]\<rparr>"
  let ?cfg = "\<lparr>cfg_paths = None,
         cfg_dataset = Some \<lparr>ds_name = None, ds_total_files = None,
                             ds_samples = Some [(''control'', 2), (''treated'', 1)]\<rparr>,
         cfg_visualization = None, cfg_project = None\<rparr>"
  let ?w = "\<lparr>dirs = {[''results'']}, files = Map.empty, denied = {}, excel_engine = True, log = [''started'']\<rparr>"
  let ?empty = "\<lparr>dirs = {}, files = Map.empty, denied = {}, excel_engine = True, log = []\<rparr>"
  have samples: "config_samples ?cfg = Inr [(''control'', 2), (''treated'', 1)]"
    by (simp add: config_samples_def getitem_def)
  obtain result s where returned: "validate_data_call ?data ?cfg ?w = Inr (result, s)"
    using validate_data_call_eq [OF samples] by blast
  from validate_data_pure [of ?data ?data ?cfg ?cfg ?w ?empty] returned
  show ?thesis by auto
qed

subsection \<open>\<^verbatim>\<open>float64\<close> arithmetic\<close>








subsection \<open>\<^verbatim>\<open>calculate_missing_percentage\<close>\<close>

lemma float_less_trans: "float_less a b \<Longrightarrow> float_less b c \<Longrightarrow> float_less a c"
  by (cases a; cases b; cases c) (auto simp: float_less_def float_rank_def)

lemma float_less_asym: "float_less a b \<Longrightarrow> \<not> float_less b a"
  by (cases a; cases b) (auto simp: float_less_def float_rank_def)

lemma not_before_trans:
  "\<not> float_before y x \<Longrightarrow> \<not> float_before z y \<Longrightarrow> \<not> float_before z x"
  by (cases x; cases y; cases z) (auto simp: float_before_def float_less_def float_rank_def)

lemma before_asym: "float_before y x \<Longrightarrow> \<not> float_before x y"
  unfolding float_before_def using float_less_asym by (cases x; cases y) auto



lemma mset_insert_stat: "mset (insert_stat x ys) = add_mset x (mset ys)"
  by (induction ys) auto

lemma set_insert_stat: "set (insert_stat x ys) = insert x (set ys)"
  by (induction ys) auto

lemma sorted_insert_stat:
  "sorted_wrt (\<lambda>a b. \<not> float_before (pct_missing b) (pct_missing a)) ys \<Longrightarrow>
   sorted_wrt (\<lambda>a b. \<not> float_before (pct_missing b) (pct_missing a)) (insert_stat x ys)"
proof (induction ys)
  case Nil
  then show ?case by simp
next
  case (Cons y ys)
  show ?case
  proof (cases "float_before (pct_missing y) (pct_missing x)")
    case True
    with Cons show ?thesis
      by (auto simp: set_insert_stat dest: before_asym)
  next
    case False
    with Cons show ?thesis
      using not_before_trans [of "pct_missing y" "pct_missing x"] by auto
  qed
qed

lemma mset_sort_values_insertion: "mset (sort_values_insertion frame) = mset frame"
  unfolding sort_values_insertion_def by (induction frame) (auto simp: mset_insert_stat)

lemma sorted_sort_values_insertion:
  "sorted_wrt (\<lambda>a b. \<not> float_before (pct_missing b) (pct_missing a)) (sort_values_insertion frame)"
  unfolding sort_values_insertion_def by (induction frame) (auto intro: sorted_insert_stat)

lemma sort_values_insertion_contract: "sort_values_contract sort_values_insertion"
  unfolding sort_values_contract_def descending_nan_last_def
  by (simp add: mset_sort_values_insertion sorted_wrt_map sorted_sort_values_insertion)



lemma isnull_sum_eq:
  "isnull_sum data = map (column_n_missing data) [0..<length (columns data)]"
  by (simp add: isnull_sum_def column_n_missing_def column_cells_def filter_map o_def)

lemma missing_stats_eq:
  "missing_stats data = map (stat_of_column data) [0..<length (columns data)]"
  by (rule nth_equalityI) (simp_all add: missing_stats_def isnull_sum_eq stat_of_column_def)


lemma pct_zero_rows: "column_n_missing data j = 0" if "rows data = []"
  using that by (simp add: column_n_missing_def)

lemma truediv_zero_zero: "truediv 0 0 = NaN"
  by (simp add: truediv_def float_of_int_def round_signed_def nearest_float64_def
      float_div_def is_negative_def magnitude_def)




text \<open>
  C9. For a dataset with zero rows the division by the row count is not guarded:
  \<^verbatim>\<open>calculate_missing_percentage\<close> still returns one row per column, and every
  \<open>pct_missing\<close> is \<^verbatim>\<open>NaN\<close>, not 0.
\<close>

theorem calculate_missing_percentage_zero_rows:
  assumes "sort_values_contract sort_values" and "len_df data = 0"
  shows "length (calculate_missing_percentage sort_values data) = length (columns data)
       \<and> (\<forall>r \<in> set (calculate_missing_percentage sort_values data).
             n_missing r = 0 \<and> pct_missing r = NaN \<and> pct_missing r \<noteq> Finite 0)"
proof -
  let ?out = "calculate_missing_percentage sort_values data"
  let ?stats = "map (\<lambda>j. \<lparr>feature = columns data ! j, n_missing = 0, pct_missing = NaN\<rparr>)
                  [0..<length (columns data)]"
  from assms(2) have "rows data = []" by (simp add: len_df_def)
  then have stats: "missing_stats data = ?stats"
    using assms(2)
    by (simp add: missing_stats_eq stat_of_column_def pct_zero_rows truediv_zero_zero
        float_times_def)
  have perm: "mset ?out = mset ?stats"
    using assms(1) stats
    by (simp add: calculate_missing_percentage_def sort_values_contract_def)
  have len: "length ?out = length (columns data)"
    using arg_cong [OF perm, of size] by simp
  have members: "set ?out = set ?stats"
    using arg_cong [OF perm, of set_mset] by simp
  have "\<forall>r \<in> set ?out. n_missing r = 0 \<and> pct_missing r = NaN \<and> pct_missing r \<noteq> Finite 0"
    unfolding members by auto
  with len show ?thesis by blast
qed







theorem calculate_missing_percentage_zero_rows_witness:
  "sort_values_contract sort_values_insertion
   \<and> len_df \<lparr>columns = [''m1'', ''m2''], rows = ([] :: int option list list)\<rparr> = 0
   \<and> length (calculate_missing_percentage sort_values_insertion
                \<lparr>columns = [''m1'', ''m2''], rows = ([] :: int option list list)\<rparr>) = 2
   \<and> list_all (\<lambda>r. n_missing r = 0 \<and> pct_missing r = NaN \<and> pct_missing r \<noteq> Finite 0)
        (calculate_missing_percentage sort_values_insertion
           \<lparr>columns = [''m1'', ''m2''], rows = ([] :: int option list list)\<rparr>)"
proof -
  have no_rows: "len_df \<lparr>columns = [''m1'', ''m2''], rows = ([] :: int option list list)\<rparr> = 0"
    by (simp add: len_df_def)
  from calculate_missing_percentage_zero_rows [OF sort_values_insertion_contract no_rows]
    sort_values_insertion_contract no_rows
  show ?thesis by (simp add: list_all_iff)
qed


subsection \<open>\<^verbatim>\<open>get_sample_info\<close>\<close>

lemma sample_rows_loop_colors:
  "config_colors cfg = Inr colors \<Longrightarrow>
   sample_rows_loop cfg g is sample_info =
     Inr (sample_info @ map (\<lambda>i. \<lparr>sample_id = g @ ''_'' @ str_int (i + 1), sample_group = g,
                                   color = dict_get colors g ''#999999''\<rparr>) is)"
  by (induction "is" arbitrary: sample_info) simp_all

lemma sample_rows_loop_no_colors:
  "config_colors cfg = Inl e \<Longrightarrow>
   sample_rows_loop cfg g is sample_info = (if is = [] then Inr sample_info else Inl e)"
  by (cases "is") simp_all

lemma py_range_rows:
  "map (\<lambda>i. \<lparr>sample_id = g @ ''_'' @ str_int (i + 1), sample_group = g,
             color = dict_get colors g ''#999999''\<rparr>) (py_range cnt)
     = group_rows colors g cnt"
proof -
  have shift: "[1..<Suc (nat cnt)] = map Suc [0..<nat cnt]"
    by (simp add: map_Suc_upt)
  have "str_int (int i + 1) = str_nat (Suc i)" for i
    by (simp add: str_int_def nat_add_distrib)
  then show ?thesis
    unfolding group_rows_def py_range_def shift by (simp add: dict_get_def o_def)
qed

lemma sample_groups_loop_colors:
  "config_colors cfg = Inr colors \<Longrightarrow>
   sample_groups_loop cfg samples sample_info =
     Inr (sample_info @ concat (map (\<lambda>(g, cnt). group_rows colors g cnt) samples))"
  by (induction samples arbitrary: sample_info)
     (auto simp: sample_rows_loop_colors py_range_rows [simplified])

lemma py_range_empty: "py_range cnt = [] \<longleftrightarrow> cnt \<le> 0"
  by (simp add: py_range_def)

lemma sample_groups_loop_no_colors:
  "config_colors cfg = Inl e \<Longrightarrow>
   sample_groups_loop cfg samples sample_info =
     (if \<exists>(g, cnt) \<in> set samples. 0 < cnt then Inl e else Inr sample_info)"
  by (induction samples arbitrary: sample_info)
     (auto simp: sample_rows_loop_no_colors py_range_empty)





text \<open>
  C10 as stated fails: a configuration without the \<^verbatim>\<open>visualization\<close> section, whose
  groups all have count 0, gets the empty table and no error.
\<close>

theorem get_sample_info_counterexample:
  "cfg_visualization
     \<lparr>cfg_paths = None,
      cfg_dataset = Some \<lparr>ds_name = None, ds_total_files = None,
                          ds_samples = Some [(''control'', 0)]\<rparr>,
      cfg_visualization = None, cfg_project = None\<rparr> = None
   \<and> get_sample_info
     \<lparr>cfg_paths = None,
      cfg_dataset = Some \<lparr>ds_name = None, ds_total_files = None,
                          ds_samples = Some [(''control'', 0)]\<rparr>,
      cfg_visualization = None, cfg_project = None\<rparr> = Inr []"
  by (simp add: get_sample_info_def config_samples_def getitem_def py_range_def)

text \<open>
  C10 (amended). \<^verbatim>\<open>get_sample_info\<close> fails with a key-lookup error whenever the
  configuration lacks \<^verbatim>\<open>dataset\<close> or \<^verbatim>\<open>dataset.samples\<close>. When these exist and the
  \<^verbatim>\<open>visualization\<close> section or its \<^verbatim>\<open>colors\<close> mapping is missing, it fails with a
  key-lookup error if some group has a positive count, and returns the empty table
  otherwise. When the \<^verbatim>\<open>colors\<close> mapping exists, a group without an entry in it gets
  \<^verbatim>\<open>'#999999'\<close>.
\<close>

theorem get_sample_info_key_errors:
  "(cfg_dataset cfg = None \<longrightarrow> get_sample_info cfg = Inl (KeyError ''dataset''))
   \<and> (\<forall>ds. cfg_dataset cfg = Some ds \<and> ds_samples ds = None \<longrightarrow>
          get_sample_info cfg = Inl (KeyError ''samples''))
   \<and> (\<forall>samples. config_samples cfg = Inr samples \<longrightarrow>
         (cfg_visualization cfg = None \<longrightarrow>
            get_sample_info cfg =
              (if \<exists>(g, cnt) \<in> set samples. 0 < cnt
               then Inl (KeyError ''visualization'') else Inr []))
       \<and> (\<forall>vis. cfg_visualization cfg = Some vis \<and> vis_colors vis = None \<longrightarrow>
            get_sample_info cfg =
              (if \<exists>(g, cnt) \<in> set samples. 0 < cnt
               then Inl (KeyError ''colors'') else Inr []))
       \<and> (\<forall>colors. config_colors cfg = Inr colors \<longrightarrow>
            (\<exists>sample_info. get_sample_info cfg = Inr sample_info
               \<and> (\<forall>r \<in> set sample_info.
                     map_of colors (sample_group r) = None \<longrightarrow> color r = ''#999999''))))"
proof (intro conjI allI impI)
  assume "cfg_dataset cfg = None"
  then show "get_sample_info cfg = Inl (KeyError ''dataset'')"
    by (simp add: get_sample_info_def config_samples_def getitem_def)
next
  fix ds assume "cfg_dataset cfg = Some ds \<and> ds_samples ds = None"
  then show "get_sample_info cfg = Inl (KeyError ''samples'')"
    by (simp add: get_sample_info_def config_samples_def getitem_def)
next
  fix samples assume samples: "config_samples cfg = Inr samples"
    and "cfg_visualization cfg = None"
  then have "config_colors cfg = Inl (KeyError ''visualization'')"
    by (simp add: config_colors_def getitem_def)
  with samples show "get_sample_info cfg =
              (if \<exists>(g, cnt) \<in> set samples. 0 < cnt
               then Inl (KeyError ''visualization'') else Inr [])"
    by (simp add: get_sample_info_def sample_groups_loop_no_colors)
next
  fix samples vis assume samples: "config_samples cfg = Inr samples"
    and "cfg_visualization cfg = Some vis \<and> vis_colors vis = None"
  then have "config_colors cfg = Inl (KeyError ''colors'')"
    by (simp add: config_colors_def getitem_def)
  with samples show "get_sample_info cfg =
              (if \<exists>(g, cnt) \<in> set samples. 0 < cnt
               then Inl (KeyError ''colors'') else Inr [])"
    by (simp add: get_sample_info_def sample_groups_loop_no_colors)
next
  fix samples colors assume samples: "config_samples cfg = Inr samples"
    and colors: "config_colors cfg = Inr colors"
  have "get_sample_info cfg =
      Inr (concat (map (\<lambda>(g, cnt). group_rows colors g cnt) samples))"
    using samples colors by (simp add: get_sample_info_def sample_groups_loop_colors)
  moreover have "\<forall>r \<in> set (concat (map (\<lambda>(g, cnt). group_rows colors g cnt) samples)).
      map_of colors (sample_group r) = None \<longrightarrow> color r = ''#999999''"
    by (auto simp: group_rows_def)
  ultimately show "\<exists>sample_info. get_sample_info cfg = Inr sample_info
               \<and> (\<forall>r \<in> set sample_info.
                     map_of colors (sample_group r) = None \<longrightarrow> color r = ''#999999'')"
    by blast
qed

theorem get_sample_info_key_errors_witness:
  "get_sample_info
     \<lparr>cfg_paths = None, cfg_dataset = None,
      cfg_visualization = Some \<lparr>vis_colors = Some []\<rparr>, cfg_project = None\<rparr>
     = Inl (KeyError ''dataset'')
   \<and> get_sample_info
     \<lparr>cfg_paths = None,
      cfg_dataset = Some \<lparr>ds_name = None, ds_total_files = None, ds_samples = None\<rparr>,
      cfg_visualization = Some \<lparr>vis_colors = Some []\<rparr>, cfg_project = None\<rparr>
     = Inl (KeyError ''samples'')
   \<and> get_sample_info
     \<lparr>cfg_paths = None,
      cfg_dataset = Some \<lparr>ds_name = None, ds_total_files = None,
                          ds_samples = Some [(''control'', 2)]\<rparr>,
      cfg_visualization = None, cfg_project = None\<rparr>
     = Inl (KeyError ''visualization'')
   \<and> get_sample_info
     \<lparr>cfg_paths = None,
      cfg_dataset = Some \<lparr>ds_name = None, ds_total_files = None,
                          ds_samples = Some [(''control'', 2)]\<rparr>,
      cfg_visualization = Some \<lparr>vis_colors = None\<rparr>, cfg_project = None\<rparr>
     = Inl (KeyError ''colors'')
   \<and> (\<exists>sample_info.
        get_sample_info
          \<lparr>cfg_paths = None,
           cfg_dataset = Some \<lparr>ds_name = None, ds_total_files = None,
                               ds_samples = Some [(''control'', 2)]\<rparr>,
           cfg_visualization = Some \<lparr>vis_colors = Some [(''treated'', ''#d62728'')]\<rparr>,
           cfg_project = None\<rparr> = Inr sample_info
        \<and> (\<forall>r \<in> set sample_info. color r = ''#999999''))"
proof -
  let ?no_dataset = "\<lparr>cfg_paths = None, cfg_dataset = None,
      cfg_visualization = Some \<lparr>vis_colors = Some []\<rparr>, cfg_project = None\<rparr>"
  let ?no_samples = "\<lparr>cfg_paths = None,
      cfg_dataset = Some \<lparr>ds_name = None, ds_total_files = None, ds_samples = None\<rparr>,
      cfg_visualization = Some \<lparr>vis_colors = Some []\<rparr>, cfg_project = None\<rparr>"
  let ?no_visualization = "\<lparr>cfg_paths = None,
      cfg_dataset = Some \<lparr>ds_name = None, ds_total_files = None,
                          ds_samples = Some [(''control'', 2)]\<rparr>,
      cfg_visualization = None, cfg_project = None\<rparr>"
  let ?no_colors = "\<lparr>cfg_paths = None,
      cfg_dataset = Some \<lparr>ds_name = None, ds_total_files = None,
                          ds_samples = Some [(''control'', 2)]\<rparr>,
      cfg_visualization = Some \<lparr>vis_colors = None\<rparr>, cfg_project = None\<rparr>"
  let ?other_color = "\<lparr>cfg_paths = None,
      cfg_dataset = Some \<lparr>ds_name = None, ds_total_files = None,
                          ds_samples = Some [(''control'', 2)]\<rparr>,
      cfg_visualization = Some \<lparr>vis_colors = Some [(''treated'', ''#d62728'')]\<rparr>,
      cfg_project = None\<rparr>"
  have a: "get_sample_info ?no_dataset = Inl (KeyError ''dataset'')"
    using get_sample_info_key_errors [of ?no_dataset] by simp
  have b: "get_sample_info ?no_samples = Inl (KeyError ''samples'')"
    using get_sample_info_key_errors [of ?no_samples] by simp
  have c: "get_sample_info ?no_visualization = Inl (KeyError ''visualization'')"
    using get_sample_info_key_errors [of ?no_visualization]
    by (simp add: config_samples_def getitem_def)
  have d: "get_sample_info ?no_colors = Inl (KeyError ''colors'')"
    using get_sample_info_key_errors [of ?no_colors]
    by (simp add: config_samples_def getitem_def)
  have e: "\<exists>sample_info. get_sample_info ?other_color = Inr sample_info
        \<and> (\<forall>r \<in> set sample_info. color r = ''#999999'')"
    using get_sample_info_key_errors [of ?other_color]
    by (auto simp: config_samples_def config_colors_def getitem_def get_sample_info_def
        sample_rows_loop_colors [of _ "[(''treated'', ''#d62728'')]"] py_range_def upt_rec)
  from a b c d e show ?thesis by blast
qed

subsection \<open>\<^verbatim>\<open>create_directories\<close>\<close>

lemma mkdir_existing: "is_dir w p \<Longrightarrow> mkdir w p = Inr w"
  by (simp add: mkdir_def)

lemma in_parents_and_self:
  "q \<in> set (parents_and_self p) \<longleftrightarrow> (\<exists>n. 1 \<le> n \<and> n \<le> length p \<and> q = take n p)"
  unfolding parents_and_self_def by auto

lemma self_in_parents_and_self: "p \<noteq> [] \<Longrightarrow> p \<in> set (parents_and_self p)"
  unfolding in_parents_and_self
  by (rule exI [of _ "length p"]) (cases p; simp)

lemma parents_of_parent:
  assumes "q \<in> set (parents_and_self p)" and "r \<in> set (parents_and_self q)"
  shows "r \<in> set (parents_and_self p)"
proof -
  from assms(1) obtain n where n: "1 \<le> n" "n \<le> length p" "q = take n p"
    unfolding in_parents_and_self by blast
  from assms(2) obtain m where m: "1 \<le> m" "m \<le> length q" "r = take m q"
    unfolding in_parents_and_self by blast
  from n m(2) have "m \<le> n" by simp
  with n m have "r = take m p" and "m \<le> length p"
    by (simp_all add: min_absorb1)
  with m(1) show ?thesis
    unfolding in_parents_and_self by blast
qed

lemma mkdir_keeps:
  assumes "mkdir w p = Inr w'"
  shows "\<forall>q. is_dir w q \<longrightarrow> is_dir w' q"
    and "files w' = files w" and "denied w' = denied w" and "log w' = log w"
    and "excel_engine w' = excel_engine w"
  using assms by (auto simp: mkdir_def is_dir_def split: if_splits)

lemma mkdir_creates:
  assumes "mkdir w p = Inr w'"
  shows "is_dir w' p"
proof (cases "is_dir w p")
  case True
  with assms show ?thesis by (simp add: mkdir_def)
next
  case False
  then have "p \<noteq> []" by (auto simp: is_dir_def)
  then have "p \<in> set (parents_and_self p)" by (rule self_in_parents_and_self)
  with False assms show ?thesis
    by (auto simp: mkdir_def is_dir_def split: if_splits)
qed

lemma mkdir_dirs_closed:
  assumes "mkdir w p = Inr w'" and "dirs_closed w"
  shows "dirs_closed w'"
proof (cases "is_dir w p")
  case True
  with assms show ?thesis by (simp add: mkdir_def)
next
  case False
  with assms(1) have w': "w' = w\<lparr>dirs := dirs w \<union> set (parents_and_self p)\<rparr>"
    by (auto simp: mkdir_def split: if_splits)
  show ?thesis
    unfolding dirs_closed_def
  proof (intro ballI)
    fix d q assume d: "d \<in> dirs w'" and q: "q \<in> set (parents_and_self d)"
    from d w' consider "d \<in> dirs w" | "d \<in> set (parents_and_self p)" by auto
    then show "is_dir w' q"
    proof cases
      case 1
      with assms(2) q have "is_dir w q" by (auto simp: dirs_closed_def)
      then show ?thesis using mkdir_keeps(1) [OF assms(1)] by blast
    next
      case 2
      from parents_of_parent [OF 2 q] have "q \<in> set (parents_and_self p)" .
      then show ?thesis by (simp add: w' is_dir_def)
    qed
  qed
qed

lemma mkdir_parents:
  assumes "mkdir w p = Inr w'" and "dirs_closed w"
  shows "\<forall>q \<in> set (parents_and_self p). is_dir w' q"
proof (cases "p \<in> dirs w'")
  case True
  with mkdir_dirs_closed [OF assms] show ?thesis by (auto simp: dirs_closed_def)
next
  case False
  with mkdir_creates [OF assms(1)] have "p = [] \<or> p = [''/'']" by (auto simp: is_dir_def)
  then show ?thesis
    by (auto simp: in_parents_and_self is_dir_def take_Suc_conv_app_nth le_Suc_eq)
qed

lemma create_directories_loop_keeps:
  "create_directories_loop paths w = Inr w' \<Longrightarrow>
     (\<forall>q. is_dir w q \<longrightarrow> is_dir w' q) \<and> files w' = files w \<and> denied w' = denied w
     \<and> log w' = log w \<and> excel_engine w' = excel_engine w
     \<and> (dirs_closed w \<longrightarrow> dirs_closed w')"
proof (induction paths arbitrary: w)
  case Nil
  then show ?case by simp
next
  case (Cons entry paths)
  obtain path_name path_value where entry: "entry = (path_name, path_value)"
    by (cases entry)
  from Cons.prems entry obtain w1 where
    first: "mkdir w (Path path_value) = Inr w1" and
    rest: "create_directories_loop paths w1 = Inr w'"
    by (auto split: sum.splits)
  from Cons.IH [OF rest] mkdir_keeps [OF first] mkdir_dirs_closed [OF first]
  show ?case by auto
qed

lemma create_directories_loop_creates:
  "create_directories_loop paths w = Inr w' \<Longrightarrow>
     \<forall>(path_name, path_value) \<in> set paths. is_dir w' (Path path_value)"
proof (induction paths arbitrary: w)
  case Nil
  then show ?case by simp
next
  case (Cons entry paths)
  obtain path_name path_value where entry: "entry = (path_name, path_value)"
    by (cases entry)
  from Cons.prems entry obtain w1 where
    first: "mkdir w (Path path_value) = Inr w1" and
    rest: "create_directories_loop paths w1 = Inr w'"
    by (auto split: sum.splits)
  have "is_dir w' (Path path_value)"
    using mkdir_creates [OF first] create_directories_loop_keeps [OF rest] by blast
  with Cons.IH [OF rest] entry show ?case by simp
qed

lemma create_directories_loop_parents:
  "create_directories_loop paths w = Inr w' \<Longrightarrow> dirs_closed w \<Longrightarrow>
     \<forall>(path_name, path_value) \<in> set paths.
        \<forall>q \<in> set (parents_and_self (Path path_value)). is_dir w' q"
proof (induction paths arbitrary: w)
  case Nil
  then show ?case by simp
next
  case (Cons entry paths)
  obtain path_name path_value where entry: "entry = (path_name, path_value)"
    by (cases entry)
  from Cons.prems entry obtain w1 where
    first: "mkdir w (Path path_value) = Inr w1" and
    rest: "create_directories_loop paths w1 = Inr w'"
    by (auto split: sum.splits)
  have "\<forall>q \<in> set (parents_and_self (Path path_value)). is_dir w' q"
    using mkdir_parents [OF first Cons.prems(2)] create_directories_loop_keeps [OF rest]
    by blast
  with Cons.IH [OF rest mkdir_dirs_closed [OF first Cons.prems(2)]] entry
  show ?case by simp
qed

lemma create_directories_loop_existing:
  "\<forall>(path_name, path_value) \<in> set paths. is_dir w (Path path_value) \<Longrightarrow>
     create_directories_loop paths w = Inr w"
  by (induction paths) (auto simp: mkdir_existing)

text \<open>
  C7. When a call of \<^verbatim>\<open>create_directories\<close> returns, a second call in the world it left
  returns too, without error, and leaves that world as it is: the same directories (and
  files, and log). After the first call every entry of \<^verbatim>\<open>paths\<close> is a directory, and so
  is every directory above it (in a file system where that held before); a directory
  that exists already is not an error.
\<close>

theorem create_directories_idempotent:
  assumes "create_directories cfg w = Inr w'"
  shows "create_directories cfg w' = Inr w'
       \<and> (\<exists>paths. cfg_paths cfg = Some paths
           \<and> (\<forall>(path_name, path_value) \<in> set paths. is_dir w' (Path path_value))
           \<and> (dirs_closed w \<longrightarrow>
                (\<forall>(path_name, path_value) \<in> set paths.
                   \<forall>q \<in> set (parents_and_self (Path path_value)). is_dir w' q)))
       \<and> (\<forall>p. is_dir w p \<longrightarrow> mkdir w p = Inr w)"
proof -
  from assms obtain paths where paths: "cfg_paths cfg = Some paths"
    and loop: "create_directories_loop paths w = Inr w'"
    by (auto simp: create_directories_def getitem_def split: option.splits)
  have created: "\<forall>(path_name, path_value) \<in> set paths. is_dir w' (Path path_value)"
    by (rule create_directories_loop_creates [OF loop])
  from create_directories_loop_existing [OF created] paths
  have again: "create_directories cfg w' = Inr w'"
    by (simp add: create_directories_def getitem_def)
  from paths created create_directories_loop_parents [OF loop]
  have entries: "\<exists>paths. cfg_paths cfg = Some paths
           \<and> (\<forall>(path_name, path_value) \<in> set paths. is_dir w' (Path path_value))
           \<and> (dirs_closed w \<longrightarrow>
                (\<forall>(path_name, path_value) \<in> set paths.
                   \<forall>q \<in> set (parents_and_self (Path path_value)). is_dir w' q))"
    by blast
  have "\<forall>p. is_dir w p \<longrightarrow> mkdir w p = Inr w"
    by (simp add: mkdir_existing)
  with again entries show ?thesis by blast
qed

theorem create_directories_idempotent_witness:
  "create_directories
       \<lparr>cfg_paths = Some [(''results'', ''out/results''), (''logs'', ''./out/logs/'')],
        cfg_dataset = None, cfg_visualization = None, cfg_project = None\<rparr>
       \<lparr>dirs = {}, files = Map.empty, denied = {}, excel_engine = True, log = []\<rparr>
     = Inr \<lparr>dirs = {[''out''], [''out'', ''results''], [''out'', ''logs'']},
            files = Map.empty, denied = {}, excel_engine = True, log = []\<rparr>
   \<and> create_directories
       \<lparr>cfg_paths = Some [(''results'', ''out/results''), (''logs'', ''./out/logs/'')],
        cfg_dataset = None, cfg_visualization = None, cfg_project = None\<rparr>
       \<lparr>dirs = {[''out''], [''out'', ''results''], [''out'', ''logs'']},
        files = Map.empty, denied = {}, excel_engine = True, log = []\<rparr>
     = Inr \<lparr>dirs = {[''out''], [''out'', ''results''], [''out'', ''logs'']},
            files = Map.empty, denied = {}, excel_engine = True, log = []\<rparr>"
proof -
  let ?cfg = "\<lparr>cfg_paths = Some [(''results'', ''out/results''), (''logs'', ''./out/logs/'')],
        cfg_dataset = None, cfg_visualization = None, cfg_project = None\<rparr>"
  let ?w = "\<lparr>dirs = {}, files = Map.empty, denied = {}, excel_engine = True, log = []\<rparr>"
  let ?w1 = "\<lparr>dirs = {[''out''], [''out'', ''results''], [''out'', ''logs'']},
            files = Map.empty, denied = {}, excel_engine = True, log = []\<rparr>"
  have results: "Path ''out/results'' = [''out'', ''results'']"
    and logs: "Path ''./out/logs/'' = [''out'', ''logs'']"
    by (simp_all add: Path_def startswith_def)
  have above: "parents_and_self [a, b] = [[a], [a, b]]" for a b :: string
    by (simp add: parents_and_self_def upt_rec)
  have first: "create_directories ?cfg ?w = Inr ?w1"
    by (auto simp: create_directories_def getitem_def results logs mkdir_def is_dir_def
        is_file_def above)
  from create_directories_idempotent [OF first] first
  show ?thesis by simp
qed

subsection \<open>\<^verbatim>\<open>save_results\<close>\<close>

lemma write_file_result:
  assumes "write_file w p enc = Inr w'"
  shows "files w' p = Some enc" and "dirs w' = dirs w" and "log w' = log w"
  using assms by (auto simp: write_file_def split: if_splits)

lemma persist_DataFrame:
  assumes "persist (DataFrame df) filename p w = Inr w'"
  shows "files w' p =
           Some (if endswith filename ''.csv'' then CsvText
                 else if endswith filename ''.xlsx'' then ExcelBook else PickleBlob)"
    and "dirs w' = dirs w"
  using assms
  by (auto simp: persist_def to_csv_def to_excel_def to_pickle_def
      dest: write_file_result split: if_splits)

lemma persist_NDArray:
  assumes "persist (NDArray a) filename p w = Inr w'"
  shows "files w' (npy_path p) = Some NpyBlob" and "dirs w' = dirs w"
  using assms by (auto simp: persist_def np_save_def dest: write_file_result)

lemma persist_OtherObject: "persist OtherObject filename p w = Inr w"
  by (simp add: persist_def)

lemma save_results_steps:
  assumes "save_results data filename cfg subdirectory w = Inr w'"
  obtains output_dir output_path w1 w2 where
    "output_dir_of cfg subdirectory = Some output_dir"
    "output_path_of cfg subdirectory filename = Some output_path"
    "mkdir w output_dir = Inr w1"
    "persist data filename output_path w1 = Inr w2"
    "w' = w2\<lparr>log := log w2 @ [''Results saved to '' @ str_path output_path]\<rparr>"
  using assms
  by (auto simp: save_results_def getitem_def output_dir_of_def output_path_of_def Let_def
      split: option.splits sum.splits)

lemma save_results_unfold:
  assumes "output_dir_of cfg subdirectory = Some output_dir"
    and "output_path_of cfg subdirectory filename = Some output_path"
  shows "save_results data filename cfg subdirectory w =
     (case mkdir w output_dir of
        Inl e \<Rightarrow> Inl e
      | Inr w1 \<Rightarrow>
          (case persist data filename output_path w1 of
             Inl e \<Rightarrow> Inl e
           | Inr w2 \<Rightarrow>
               Inr (w2\<lparr>log := log w2 @ [''Results saved to '' @ str_path output_path]\<rparr>)))"
  using assms
  by (auto simp: save_results_def getitem_def output_dir_of_def output_path_of_def Let_def
      split: option.splits sum.splits)


text \<open>
  C4. When \<^verbatim>\<open>save_results\<close> returns, the file it wrote is encoded as follows: a
  \<^verbatim>\<open>DataFrame\<close> with a filename ending in \<^verbatim>\<open>.csv\<close> as CSV text, with one ending in
  \<^verbatim>\<open>.xlsx\<close> as an Excel spreadsheet, with any other filename as a pickle; an
  \<^verbatim>\<open>ndarray\<close> always in NumPy's binary format, whatever the filename (at the path with
  \<^verbatim>\<open>.npy\<close> appended when the filename does not end with it).
\<close>

theorem save_results_encoding:
  assumes "save_results data filename cfg subdirectory w = Inr w'"
  shows "\<exists>output_path. output_path_of cfg subdirectory filename = Some output_path
      \<and> (\<forall>df. data = DataFrame df \<longrightarrow>
             files w' output_path =
               Some (if endswith filename ''.csv'' then CsvText
                     else if endswith filename ''.xlsx'' then ExcelBook else PickleBlob))
      \<and> (\<forall>a. data = NDArray a \<longrightarrow> files w' (npy_path output_path) = Some NpyBlob)"
proof -
  from assms obtain output_dir output_path w1 w2 where
    path: "output_path_of cfg subdirectory filename = Some output_path" and
    persisted: "persist data filename output_path w1 = Inr w2" and
    w': "w' = w2\<lparr>log := log w2 @ [''Results saved to '' @ str_path output_path]\<rparr>"
    by (rule save_results_steps)
  have "files w' output_path =
               Some (if endswith filename ''.csv'' then CsvText
                     else if endswith filename ''.xlsx'' then ExcelBook else PickleBlob)"
    if "data = DataFrame df" for df
    using persist_DataFrame(1) [of df filename output_path w1 w2] persisted that w' by simp
  moreover have "files w' (npy_path output_path) = Some NpyBlob" if "data = NDArray a" for a
    using persist_NDArray(1) [of a filename output_path w1 w2] persisted that w' by simp
  ultimately show ?thesis using path by blast
qed

theorem save_results_encoding_witness:
  "(\<exists>w'. save_results (DataFrame \<lparr>columns = [''m1''], rows = [[Some (1::int)]]\<rparr>) ''foo.csv''
            \<lparr>cfg_paths = Some [(''results'', ''out'')], cfg_dataset = None,
             cfg_visualization = None, cfg_project = None\<rparr> ''results''
            \<lparr>dirs = {}, files = Map.empty, denied = {}, excel_engine = True, log = []\<rparr>
          = Inr w'
        \<and> files w' [''out'', ''foo.csv''] = Some CsvText)
   \<and> (\<exists>w'. save_results (DataFrame \<lparr>columns = [''m1''], rows = [[Some (1::int)]]\<rparr>) ''foo.xlsx''
            \<lparr>cfg_paths = Some [(''results'', ''out'')], cfg_dataset = None,
             cfg_visualization = None, cfg_project = None\<rparr> ''results''
            \<lparr>dirs = {}, files = Map.empty, denied = {}, excel_engine = True, log = []\<rparr>
          = Inr w'
        \<and> files w' [''out'', ''foo.xlsx''] = Some ExcelBook)
   \<and> (\<exists>w'. save_results (DataFrame \<lparr>columns = [''m1''], rows = [[Some (1::int)]]\<rparr>) ''foo.txt''
            \<lparr>cfg_paths = Some [(''results'', ''out'')], cfg_dataset = None,
             cfg_visualization = None, cfg_project = None\<rparr> ''results''
            \<lparr>dirs = {}, files = Map.empty, denied = {}, excel_engine = True, log = []\<rparr>
          = Inr w'
        \<and> files w' [''out'', ''foo.txt''] = Some PickleBlob)
   \<and> (\<exists>w'. save_results (NDArray [1::int, 2]) ''foo.csv''
            \<lparr>cfg_paths = Some [(''results'', ''out'')], cfg_dataset = None,
             cfg_visualization = None, cfg_project = None\<rparr> ''results''
            \<lparr>dirs = {}, files = Map.empty, denied = {}, excel_engine = True, log = []\<rparr>
          = Inr w'
        \<and> files w' [''out'', ''foo.csv.npy''] = Some NpyBlob)"
proof -
  let ?cfg = "\<lparr>cfg_paths = Some [(''results'', ''out'')], cfg_dataset = None,
             cfg_visualization = None, cfg_project = None\<rparr>"
  let ?w = "\<lparr>dirs = {}, files = Map.empty, denied = {}, excel_engine = True, log = []\<rparr>"
  let ?df = "DataFrame \<lparr>columns = [''m1''], rows = [[Some (1::int)]]\<rparr>"
  have dir: "output_dir_of ?cfg ''results'' = Some [''out'']"
    by (simp add: output_dir_of_def Path_def startswith_def)
  have path: "output_path_of ?cfg ''results'' name = Some [''out'', name]"
    if "name \<in> {''foo.csv'', ''foo.xlsx'', ''foo.txt''}" for name
    using that by (auto simp: output_path_of_def path_join_def Path_def startswith_def)
  have made: "mkdir ?w [''out''] = Inr (?w\<lparr>dirs := {[''out'']}\<rparr>)"
    by (simp add: mkdir_def is_dir_def is_file_def parents_and_self_def)
  have npy: "npy_path [''out'', ''foo.csv''] = [''out'', ''foo.csv.npy'']"
    by (simp add: npy_path_def endswith_def)
  have csv: "\<exists>w'. save_results ?df ''foo.csv'' ?cfg ''results'' ?w = Inr w'"
    by (simp add: save_results_unfold [OF dir path] made persist_def endswith_def to_csv_def
        write_file_def is_dir_def is_file_def)
  have xlsx: "\<exists>w'. save_results ?df ''foo.xlsx'' ?cfg ''results'' ?w = Inr w'"
    by (simp add: save_results_unfold [OF dir path] made persist_def endswith_def to_excel_def
        write_file_def is_dir_def is_file_def)
  have other: "\<exists>w'. save_results ?df ''foo.txt'' ?cfg ''results'' ?w = Inr w'"
    by (simp add: save_results_unfold [OF dir path] made persist_def endswith_def to_pickle_def
        write_file_def is_dir_def is_file_def)
  have array: "\<exists>w'. save_results (NDArray [1::int, 2]) ''foo.csv'' ?cfg ''results'' ?w = Inr w'"
    by (simp add: save_results_unfold [OF dir path] made persist_def np_save_def npy
        write_file_def is_dir_def is_file_def)
  from csv obtain w1 where w1: "save_results ?df ''foo.csv'' ?cfg ''results'' ?w = Inr w1" ..
  from xlsx obtain w2 where w2: "save_results ?df ''foo.xlsx'' ?cfg ''results'' ?w = Inr w2" ..
  from other obtain w3 where w3: "save_results ?df ''foo.txt'' ?cfg ''results'' ?w = Inr w3" ..
  from array obtain w4 where
    w4: "save_results (NDArray [1::int, 2]) ''foo.csv'' ?cfg ''results'' ?w = Inr w4" ..
  have "files w1 [''out'', ''foo.csv''] = Some CsvText"
    using save_results_encoding [OF w1] by (simp add: path endswith_def)
  moreover have "files w2 [''out'', ''foo.xlsx''] = Some ExcelBook"
    using save_results_encoding [OF w2] by (simp add: path endswith_def)
  moreover have "files w3 [''out'', ''foo.txt''] = Some PickleBlob"
    using save_results_encoding [OF w3] by (simp add: path endswith_def)
  moreover have "files w4 [''out'', ''foo.csv.npy''] = Some NpyBlob"
    using save_results_encoding [OF w4] by (simp add: path npy)
  ultimately show ?thesis using w1 w2 w3 w4 by blast
qed



lemma save_results_other_object:
  assumes "save_results (OtherObject :: 'a artifact) filename cfg subdirectory w = Inr w'"
  shows "files w' = files w"
    and "\<exists>output_path. output_path_of cfg subdirectory filename = Some output_path
           \<and> log w' = log w @ [''Results saved to '' @ str_path output_path]"
proof -
  from assms obtain output_dir output_path w1 w2 where
    path: "output_path_of cfg subdirectory filename = Some output_path" and
    made: "mkdir w output_dir = Inr w1" and
    persisted: "persist (OtherObject :: 'a artifact) filename output_path w1 = Inr w2" and
    w': "w' = w2\<lparr>log := log w2 @ [''Results saved to '' @ str_path output_path]\<rparr>"
    by (rule save_results_steps)
  from persisted have "w2 = w1" by (simp add: persist_def)
  with w' mkdir_keeps [OF made] path
  show "files w' = files w"
    and "\<exists>output_path. output_path_of cfg subdirectory filename = Some output_path
           \<and> log w' = log w @ [''Results saved to '' @ str_path output_path]"
    by simp_all
qed





subsection \<open>\<^verbatim>\<open>generate_report_summary\<close>\<close>








lemma float_0_12345_nearest:
  "\<bar>8895509983982204 / 2 ^ 56 - 12345 / 100000\<bar> \<le> (1 / 2 ^ 57 :: rat)"
  "(2::nat) ^ 52 \<le> 8895509983982204" "8895509983982204 < (2::nat) ^ 53"
  by simp_all



end
